theory Spec2Isabelle
  imports Main "HOL-Library.AList"
begin

section \<open>Data model of app.py\<close>

text \<open>
  The values that cross the HTTP boundary are JSON values. A Python dict is an association
  list in insertion order (its keys are distinct; \<open>map_of\<close> is the lookup and
  \<open>AList.update\<close> the assignment \<^verbatim>\<open>d[k] = v\<close>). JSON numbers with a fraction do not
  occur in any handler and are left out. Strings are byte lists in UTF-8.
\<close>

datatype json =
    JNull
  | JBool bool
  | JInt int
  | JStr string
  | JArr "json list"
  | JObj "(string \<times> json) list"

text \<open>The exceptions that a handler lets escape (Flask answers them outside the handler).\<close>

datatype error = FileNotFoundError | AttributeError | KeyError | TypeError | OverflowError

text \<open>
  A handler returns \<^verbatim>\<open>jsonify(body), status\<close>; a bare \<^verbatim>\<open>jsonify(body)\<close> has status 200.
\<close>

type_synonym response = "json \<times> nat"

definition jsonify :: "json \<Rightarrow> response" where
  "jsonify b = (b, 200)"

text \<open>
  The two tables of the database. Their columns are named by the queries of app.py:
  \<^verbatim>\<open>user (id, full_name, email, nickname, password)\<close> and
  \<^verbatim>\<open>progress (id, user_id, subject, score)\<close>.
\<close>

record user_row =
  u_id :: int
  u_full_name :: string
  u_email :: string
  u_nickname :: string
  u_password :: string

record progress_row =
  p_id :: int
  p_user_id :: int
  p_subject :: string
  p_score :: int

text \<open>
  The Flask session is a dict that only \<^verbatim>\<open>login\<close> writes, with the keys
  \<^verbatim>\<open>user_id\<close> and \<^verbatim>\<open>user_nickname\<close>; a key that is absent is \<open>None\<close>.
\<close>

record session =
  user_id :: "int option"
  user_nickname :: "string option"

definition session_clear :: session where
  "session_clear = \<lparr>user_id = None, user_nickname = None\<rparr>"

text \<open>What a request sees and may change: the database behind \<^verbatim>\<open>get_db()\<close> and the session.\<close>

record app_state =
  user_tbl :: "user_row list"
  progress_tbl :: "progress_row list"
  sess :: session

text \<open>
  Modelled from the spec: schema.sql is not among the sources. The spec gives every row a
  numeric id that is unique and assigned on insert; an insert that names no id takes the
  largest id of the table plus one, and 1 in an empty table.
\<close>

definition next_id :: "int list \<Rightarrow> int" where
  "next_id ids = (if ids = [] then 1 else Max (set ids) + 1)"


subsection \<open>Texts of the responses\<close>

definition e_acute :: string where
  "e_acute = [CHR 0xC3, CHR 0xA9]"

definition a_grave :: string where
  "a_grave = [CHR 0xC3, CHR 0xA0]"

definition non_autorise :: response where
  "non_autorise = (JObj [(''error'', JStr (''Non autoris'' @ e_acute))], 401)"

definition success_true :: response where
  "success_true = jsonify (JObj [(''success'', JBool True)])"

section \<open>Progress\<close>








section \<open>Authentication\<close>

text \<open>
  A field that \<^verbatim>\<open>data.get\<close> reads from the body is a string, or \<open>None\<close> when the key is
  absent or null. Python's truth value of such a field: \<open>None\<close> and the empty string are
  false.
\<close>

definition truthy :: "string option \<Rightarrow> bool" where
  "truthy v = (case v of None \<Rightarrow> False | Some s \<Rightarrow> s \<noteq> [])"

definition champs_requis :: response where
  "champs_requis =
     (JObj [(''success'', JBool False), (''message'', JStr ''Tous les champs sont requis.'')], 400)"

definition deja_utilise :: response where
  "deja_utilise =
     (JObj [(''success'', JBool False),
            (''message'', JStr (''Ce pseudo ou cet email est d'' @ e_acute @ ''j'' @ a_grave
                                 @ '' utilis'' @ e_acute @ ''.''))], 409)"

definition inscription_reussie :: response where
  "inscription_reussie =
     jsonify (JObj [(''success'', JBool True),
                    (''message'', JStr (''Inscription r'' @ e_acute
                        @ ''ussie ! Vous pouvez maintenant vous connecter.''))])"

definition incorrect :: response where
  "incorrect =
     (JObj [(''success'', JBool False),
            (''message'', JStr ''Pseudo ou mot de passe incorrect.'')], 401)"

text \<open>\<^verbatim>\<open>INSERT INTO user (full_name, email, nickname, password) VALUES (?, ?, ?, ?)\<close>.\<close>

definition insert_user :: "user_row list \<Rightarrow> string \<Rightarrow> string \<Rightarrow> string \<Rightarrow> string \<Rightarrow> user_row list" where
  "insert_user tbl full_name email nickname hashed_password =
     tbl @ [\<lparr>u_id = next_id (map u_id tbl), u_full_name = full_name, u_email = email,
             u_nickname = nickname, u_password = hashed_password\<rparr>]"

text \<open>
  \<^verbatim>\<open>register\<close> (POST /api/register). werkzeug's \<^verbatim>\<open>generate_password_hash\<close>, with the
  salt it draws, is the parameter \<open>generate_password_hash\<close>. Past the first test the four
  fields are non-empty strings, so \<open>the\<close> is only applied to \<open>Some\<close>.
\<close>

definition register ::
  "(string \<Rightarrow> string) \<Rightarrow> app_state \<Rightarrow> string option \<Rightarrow> string option \<Rightarrow> string option
     \<Rightarrow> string option \<Rightarrow> response \<times> app_state" where
  "register generate_password_hash st full_name email nickname password =
     (if \<not> list_all truthy [full_name, email, nickname, password] then (champs_requis, st)
      else
        (case find (\<lambda>u. u_nickname u = the nickname \<or> u_email u = the email) (user_tbl st) of
           Some _ \<Rightarrow> (deja_utilise, st)
         | None \<Rightarrow>
             (let hashed_password = generate_password_hash (the password)
              in (inscription_reussie,
                  st\<lparr>user_tbl := insert_user (user_tbl st) (the full_name) (the email)
                                   (the nickname) hashed_password\<rparr>))))"

text \<open>
  \<^verbatim>\<open>SELECT * FROM user WHERE nickname = ?\<close> with \<^verbatim>\<open>fetchone()\<close>; a null parameter
  equals no nickname.
\<close>

definition select_user_by_nickname :: "user_row list \<Rightarrow> string option \<Rightarrow> user_row option" where
  "select_user_by_nickname tbl nickname =
     (case nickname of None \<Rightarrow> None | Some n \<Rightarrow> find (\<lambda>u. u_nickname u = n) tbl)"

text \<open>
  \<^verbatim>\<open>login\<close> (POST /api/login). werkzeug's \<^verbatim>\<open>check_password_hash\<close> is the parameter
  \<open>check_password_hash\<close>; it is given the stored hash and whatever \<^verbatim>\<open>data.get('password')\<close>
  returned, and an exception it raises leaves the handler. It is only called when a user
  was found (\<^verbatim>\<open>user and ...\<close>).
\<close>

definition login ::
  "(string \<Rightarrow> string option \<Rightarrow> error + bool) \<Rightarrow> app_state \<Rightarrow> string option \<Rightarrow> string option
     \<Rightarrow> error + response \<times> app_state" where
  "login check_password_hash st nickname password =
     (case select_user_by_nickname (user_tbl st) nickname of
        None \<Rightarrow> Inr (incorrect, st)
      | Some user \<Rightarrow>
          (case check_password_hash (u_password user) password of
             Inl e \<Rightarrow> Inl e
           | Inr ok \<Rightarrow>
               (if ok
                then Inr (success_true,
                          st\<lparr>sess := session_clear\<lparr>user_id := Some (u_id user),
                                                     user_nickname := Some (u_nickname user)\<rparr>\<rparr>)
                else Inr (incorrect, st))))"

text \<open>\<^verbatim>\<open>logout\<close> (/api/logout).\<close>

definition logout :: "app_state \<Rightarrow> response \<times> app_state" where
  "logout st = (success_true, st\<lparr>sess := session_clear\<rparr>)"

text \<open>\<^verbatim>\<open>check_session\<close> (/api/check_session).\<close>

definition check_session :: "app_state \<Rightarrow> response" where
  "check_session st =
     (if user_id (sess st) \<noteq> None then jsonify (JObj [(''logged_in'', JBool True)])
      else jsonify (JObj [(''logged_in'', JBool False)]))"

section \<open>Application data\<close>

text \<open>
  \<^verbatim>\<open>SELECT subject, score FROM progress WHERE user_id = ?\<close> with \<^verbatim>\<open>fetchall()\<close>, and
  the dict comprehension over its rows.
\<close>

definition progress_dict :: "progress_row list \<Rightarrow> int \<Rightarrow> (string \<times> json) list" where
  "progress_dict tbl uid =
     fold (\<lambda>item d. AList.update (p_subject item) (JInt (p_score item)) d)
       (filter (\<lambda>r. p_user_id r = uid) tbl) []"

text \<open>\<^verbatim>\<open>get_user_data\<close>; Python's \<open>None\<close> is \<open>JNull\<close>, as \<^verbatim>\<open>jsonify\<close> writes it.\<close>

definition get_user_data :: "app_state \<Rightarrow> json" where
  "get_user_data st =
     (case user_id (sess st) of
        None \<Rightarrow> JNull
      | Some uid \<Rightarrow>
          (case find (\<lambda>u. u_id u = uid) (user_tbl st) of
             None \<Rightarrow> JNull
           | Some user \<Rightarrow>
               JObj [(''id'', JInt (u_id user)),
                     (''fullName'', JStr (u_full_name user)),
                     (''email'', JStr (u_email user)),
                     (''nickname'', JStr (u_nickname user)),
                     (''progress'', JObj (progress_dict (progress_tbl st) uid))]))"

text \<open>
  quizzes.json as \<^verbatim>\<open>json.load\<close> returns it: a dict keyed by subject, or \<open>None\<close> when
  \<^verbatim>\<open>open\<close> raises FileNotFoundError.
\<close>

type_synonym quiz_file = "(string \<times> json) list option"

text \<open>\<^verbatim>\<open>data.get(key, default)\<close> on a dict.\<close>

definition dict_get :: "(string \<times> json) list \<Rightarrow> string \<Rightarrow> json \<Rightarrow> json" where
  "dict_get d k dflt = (case map_of d k of None \<Rightarrow> dflt | Some v \<Rightarrow> v)"

definition point_interrogation :: string where
  "point_interrogation = [CHR 0xE2, CHR 0x9D, CHR 0x93]"

text \<open>
  The value that the comprehension of \<^verbatim>\<open>get_all_courses_info\<close> builds for one entry.
  Only a dict has \<^verbatim>\<open>get\<close>.
\<close>

fun course_info :: "json \<Rightarrow> error + json" where
  "course_info (JObj data) =
     Inr (JObj [(''title'', dict_get data ''title'' (JStr ''Sans titre'')),
                (''description'', dict_get data ''description'' (JStr [])),
                (''emoji'', dict_get data ''emoji'' (JStr point_interrogation)),
                (''professor'', dict_get data ''professor'' (JStr ''N/A'')),
                (''pdf_link'', dict_get data ''pdf_link'' JNull)])"
| "course_info _ = Inl AttributeError"

text \<open>The keys of that value, in the order the comprehension writes them.\<close>

definition summary_keys :: "string list" where
  "summary_keys = [''title'', ''description'', ''emoji'', ''professor'', ''pdf_link'']"

fun courses_comprehension ::
  "(string \<times> json) list \<Rightarrow> (string \<times> json) list \<Rightarrow> error + (string \<times> json) list" where
  "courses_comprehension [] acc = Inr acc"
| "courses_comprehension ((subject, data) # items) acc =
     (case course_info data of
        Inl e \<Rightarrow> Inl e
      | Inr info \<Rightarrow> courses_comprehension items (AList.update subject info acc))"

definition get_all_courses_info :: "quiz_file \<Rightarrow> error + json" where
  "get_all_courses_info file =
     (case file of
        None \<Rightarrow> Inl FileNotFoundError
      | Some quizzes \<Rightarrow>
          (case courses_comprehension quizzes [] of
             Inl e \<Rightarrow> Inl e
           | Inr courses_info \<Rightarrow> Inr (JObj courses_info)))"

text \<open>\<^verbatim>\<open>get_app_data\<close> (/api/data): no \<^verbatim>\<open>try\<close> around the catalog.\<close>

definition get_app_data :: "app_state \<Rightarrow> quiz_file \<Rightarrow> error + response" where
  "get_app_data st file =
     (if user_id (sess st) = None then Inr non_autorise
      else
        (let user_info = get_user_data st in
         case get_all_courses_info file of
           Inl e \<Rightarrow> Inl e
         | Inr courses_info \<Rightarrow>
             Inr (jsonify (JObj [(''user'', user_info), (''courses'', courses_info)]))))"

definition fichier_non_trouve :: response where
  "fichier_non_trouve =
     (JObj [(''error'', JStr (''Fichier de quiz non trouv'' @ e_acute))], 500)"

definition quiz_non_trouve :: response where
  "quiz_non_trouve = (JObj [(''error'', JStr (''Quiz non trouv'' @ e_acute))], 404)"

text \<open>\<^verbatim>\<open>get_courses\<close> (/api/courses): only FileNotFoundError is caught.\<close>

definition get_courses :: "quiz_file \<Rightarrow> error + response" where
  "get_courses file =
     (case get_all_courses_info file of
        Inr courses_info \<Rightarrow> Inr (jsonify courses_info)
      | Inl e \<Rightarrow> (if e = FileNotFoundError then Inr fichier_non_trouve else Inl e))"

text \<open>
  \<^verbatim>\<open>quizzes[subject]["questions"]\<close>: a dict without the key raises KeyError, and a value
  that is no dict cannot be indexed by a string.
\<close>

fun questions_of :: "json \<Rightarrow> error + json" where
  "questions_of (JObj data) =
     (case map_of data ''questions'' of None \<Rightarrow> Inl KeyError | Some qs \<Rightarrow> Inr qs)"
| "questions_of _ = Inl TypeError"

text \<open>\<^verbatim>\<open>get_quiz\<close> (/api/quiz/<subject>).\<close>

definition get_quiz :: "app_state \<Rightarrow> quiz_file \<Rightarrow> string \<Rightarrow> error + response" where
  "get_quiz st file subject =
     (if user_id (sess st) = None then Inr non_autorise
      else
        (case file of
           None \<Rightarrow> Inr fichier_non_trouve
         | Some quizzes \<Rightarrow>
             (case map_of quizzes subject of
                Some entry \<Rightarrow>
                  (case questions_of entry of
                     Inl e \<Rightarrow> Inl e
                   | Inr questions \<Rightarrow> Inr (jsonify questions))
              | None \<Rightarrow> Inr quiz_non_trouve)))"

section \<open>Sequences of requests\<close>




section \<open>Example data\<close>

text \<open>
  A stand-in for the two werkzeug functions, and a few concrete states and catalogs on
  which the theorems below are instantiated.
\<close>

definition demo_gph :: "string \<Rightarrow> string" where
  "demo_gph pw = ''scrypt$'' @ pw"

definition demo_cph :: "string \<Rightarrow> string option \<Rightarrow> error + bool" where
  "demo_cph h pw = (case pw of None \<Rightarrow> Inl AttributeError | Some p \<Rightarrow> Inr (h = demo_gph p))"

definition alice :: user_row where
  "alice = \<lparr>u_id = 1, u_full_name = ''Alice A'', u_email = ''alice@example.org'',
            u_nickname = ''alice'', u_password = demo_gph ''secret''\<rparr>"

definition alice_session :: session where
  "alice_session = \<lparr>user_id = Some 1, user_nickname = Some ''alice''\<rparr>"


definition st_anon :: app_state where
  "st_anon = \<lparr>user_tbl = [alice], progress_tbl = [], sess = session_clear\<rparr>"

definition st_stale :: app_state where
  "st_stale = \<lparr>user_tbl = [alice], progress_tbl = [],
               sess = \<lparr>user_id = Some 7, user_nickname = Some ''ghost''\<rparr>\<rparr>"

definition demo_quizzes :: "(string \<times> json) list" where
  "demo_quizzes =
     [(''math'', JObj [(''title'', JStr ''Maths''),
                       (''questions'', JArr [JStr ''q1'', JStr ''q2''])]),
      (''history'', JObj [(''professor'', JStr ''Dr H''), (''questions'', JArr [])])]"

definition st_alice :: app_state where
  "st_alice = \<lparr>user_tbl = [alice], progress_tbl = [], sess = alice_session\<rparr>"

definition demo_courses :: "(string \<times> json) list" where
  "demo_courses =
     [(''math'', JObj [(''title'', JStr ''Maths''), (''description'', JStr []),
                       (''emoji'', JStr point_interrogation), (''professor'', JStr ''N/A''),
                       (''pdf_link'', JNull)]),
      (''history'', JObj [(''title'', JStr ''Sans titre''), (''description'', JStr []),
                          (''emoji'', JStr point_interrogation), (''professor'', JStr ''Dr H''),
                          (''pdf_link'', JNull)])]"

section \<open>The progress store keeps the best score\<close>

























section \<open>Registration and login\<close>



lemma login_not_found:
  "select_user_by_nickname (user_tbl st) nickname = None \<Longrightarrow>
     login cph st nickname password = Inr (incorrect, st)"
  by (simp add: login_def)

lemma login_bad_password:
  "select_user_by_nickname (user_tbl st) nickname = Some user \<Longrightarrow>
     cph (u_password user) password = Inr False \<Longrightarrow>
     login cph st nickname password = Inr (incorrect, st)"
  by (simp add: login_def)

text \<open>
  C3. A login that finds no user and a login whose password check returns false get
  the same 401 response (the two lemmas above). But \<^verbatim>\<open>login\<close> does not test that the
  body has a password, as \<^verbatim>\<open>register\<close> does, and \<^verbatim>\<open>check_password_hash\<close> is called only
  when the nickname exists. werkzeug encodes the password, so it raises on \<open>None\<close>: for a
  body without a password the exception leaves the handler when the nickname is known,
  and the 401 is returned when it is not. The two answers differ.
\<close>

theorem login_without_password_tells_nicknames:
  assumes "select_user_by_nickname (user_tbl st) known = Some user"
    and "select_user_by_nickname (user_tbl st) unknown = None"
    and "cph (u_password user) None = Inl e"
  shows "login cph st known None = Inl e
    \<and> login cph st unknown None = Inr (incorrect, st)
    \<and> login cph st known None \<noteq> login cph st unknown None"
proof -
  have k: "login cph st known None = Inl e"
    using assms(1,3) by (simp add: login_def)
  have u: "login cph st unknown None = Inr (incorrect, st)"
    using assms(2) by (rule login_not_found)
  show ?thesis using k u by simp
qed

theorem login_without_password_tells_nicknames_witness:
  "select_user_by_nickname (user_tbl st_anon) (Some ''alice'') = Some alice
   \<and> select_user_by_nickname (user_tbl st_anon) (Some ''bob'') = None
   \<and> demo_cph (u_password alice) None = Inl AttributeError
   \<and> login demo_cph st_anon (Some ''alice'') None = Inl AttributeError
   \<and> login demo_cph st_anon (Some ''bob'') None = Inr (incorrect, st_anon)"
proof -
  have fd: "select_user_by_nickname (user_tbl st_anon) (Some ''alice'') = Some alice"
    by (simp add: select_user_by_nickname_def st_anon_def alice_def)
  have nf: "select_user_by_nickname (user_tbl st_anon) (Some ''bob'') = None"
    by (simp add: select_user_by_nickname_def st_anon_def alice_def)
  have r: "demo_cph (u_password alice) None = Inl AttributeError"
    by (simp add: demo_cph_def)
  show ?thesis
    using login_without_password_tells_nicknames
      [of st_anon "Some ''alice''" alice "Some ''bob''" demo_cph AttributeError, OF fd nf r]
      fd nf r
    by simp
qed

section \<open>Logout and the session\<close>

text \<open>
  C8. \<^verbatim>\<open>logout\<close> answers success from every state and leaves the session empty; the
  database is untouched. In the state it leaves, \<^verbatim>\<open>check_session\<close> reports
  \<^verbatim>\<open>logged_in: false\<close>, and /api/data and /api/quiz/<subject> answer 401 for every catalog
  and every subject.
\<close>

theorem logout_clears_session:
  "fst (logout st) = jsonify (JObj [(''success'', JBool True)])
   \<and> sess (snd (logout st)) = \<lparr>user_id = None, user_nickname = None\<rparr>
   \<and> user_tbl (snd (logout st)) = user_tbl st
   \<and> progress_tbl (snd (logout st)) = progress_tbl st
   \<and> check_session (snd (logout st)) = jsonify (JObj [(''logged_in'', JBool False)])
   \<and> get_app_data (snd (logout st)) file = Inr non_autorise
   \<and> get_quiz (snd (logout st)) file subject = Inr non_autorise
   \<and> snd non_autorise = 401"
  by (simp add: logout_def success_true_def session_clear_def check_session_def
      get_app_data_def get_quiz_def non_autorise_def)

text \<open>
  C9. \<^verbatim>\<open>register\<close> never touches the session, whatever its outcome, so
  \<^verbatim>\<open>check_session\<close> answers after it what it answered before it.
\<close>

theorem register_keeps_session:
  "sess (snd (register gph st full_name email nickname password)) = sess st
   \<and> check_session (snd (register gph st full_name email nickname password)) = check_session st"
proof -
  have "sess (snd (register gph st full_name email nickname password)) = sess st"
    by (simp add: register_def Let_def split: option.splits)
  then show ?thesis by (simp add: check_session_def)
qed

text \<open>
  C10. When the session names a user id that no row of the user table has, /api/data
  does not answer 401: \<^verbatim>\<open>get_user_data\<close> is null, and the handler goes on to the
  catalog. It answers status 200 with the user field null and the course summaries,
  and when the catalog raises, that exception leaves the handler.
\<close>

theorem stale_session_user_null:
  assumes "user_id (sess st) = Some uid" and "\<forall>u \<in> set (user_tbl st). u_id u \<noteq> uid"
  shows "get_user_data st = JNull
    \<and> (\<forall>body. get_app_data st file \<noteq> Inr (body, 401))
    \<and> (\<forall>courses. get_all_courses_info file = Inr courses \<longrightarrow>
          get_app_data st file = Inr (JObj [(''user'', JNull), (''courses'', courses)], 200))
    \<and> (\<forall>e. get_all_courses_info file = Inl e \<longrightarrow> get_app_data st file = Inl e)"
proof -
  have "find (\<lambda>u. u_id u = uid) (user_tbl st) = None"
    using assms(2) by (simp add: find_None_iff)
  then have null: "get_user_data st = JNull"
    using assms(1) by (simp add: get_user_data_def)
  show ?thesis
    using assms(1) null
    by (auto simp: get_app_data_def jsonify_def split: sum.splits)
qed

theorem stale_session_user_null_witness:
  "user_id (sess st_stale) = Some 7 \<and> 7 \<notin> set (map u_id (user_tbl st_stale))
   \<and> get_app_data st_stale (Some demo_quizzes) =
       Inr (JObj [(''user'', JNull),
                  (''courses'', JObj
                     [(''math'', JObj [(''title'', JStr ''Maths''), (''description'', JStr []),
                         (''emoji'', JStr point_interrogation), (''professor'', JStr ''N/A''),
                         (''pdf_link'', JNull)]),
                      (''history'', JObj [(''title'', JStr ''Sans titre''),
                         (''description'', JStr []), (''emoji'', JStr point_interrogation),
                         (''professor'', JStr ''Dr H''), (''pdf_link'', JNull)])])], 200)
   \<and> get_app_data st_stale None = Inl FileNotFoundError"
proof -
  have u: "user_id (sess st_stale) = Some 7" by (simp add: st_stale_def)
  have n: "\<forall>u \<in> set (user_tbl st_stale). u_id u \<noteq> 7" by (simp add: st_stale_def alice_def)
  have c: "get_all_courses_info (Some demo_quizzes) = Inr (JObj
                     [(''math'', JObj [(''title'', JStr ''Maths''), (''description'', JStr []),
                         (''emoji'', JStr point_interrogation), (''professor'', JStr ''N/A''),
                         (''pdf_link'', JNull)]),
                      (''history'', JObj [(''title'', JStr ''Sans titre''),
                         (''description'', JStr []), (''emoji'', JStr point_interrogation),
                         (''professor'', JStr ''Dr H''), (''pdf_link'', JNull)])])"
    by (simp add: get_all_courses_info_def demo_quizzes_def dict_get_def)
  have f: "get_all_courses_info None = Inl FileNotFoundError"
    by (simp add: get_all_courses_info_def)
  show ?thesis
    using stale_session_user_null [OF u n, of "Some demo_quizzes"]
      stale_session_user_null [OF u n, of None] u c f
    by (simp add: st_stale_def alice_def)
qed

section \<open>Progress and the catalog\<close>







section \<open>Course summaries and quizzes\<close>

lemma course_info_Inr:
  "course_info d = Inr info \<Longrightarrow>
     \<exists>data. d = JObj data \<and> info =
       JObj [(''title'', dict_get data ''title'' (JStr ''Sans titre'')),
             (''description'', dict_get data ''description'' (JStr [])),
             (''emoji'', dict_get data ''emoji'' (JStr point_interrogation)),
             (''professor'', dict_get data ''professor'' (JStr ''N/A'')),
             (''pdf_link'', dict_get data ''pdf_link'' JNull)]"
  by (cases d) simp_all

lemma update_set: "p \<in> set (AList.update k v al) \<Longrightarrow> p = (k, v) \<or> p \<in> set al"
  by (induction al) (auto split: if_splits)

lemma comprehension_other:
  "courses_comprehension items acc = Inr res \<Longrightarrow> s \<notin> fst ` set items \<Longrightarrow>
     map_of res s = map_of acc s"
proof (induction items arbitrary: acc)
  case Nil
  then show ?case by simp
next
  case (Cons item items)
  obtain s0 d0 where item: "item = (s0, d0)" by (cases item)
  from Cons.prems(1) obtain i0 where i0: "course_info d0 = Inr i0"
      and rest: "courses_comprehension items (AList.update s0 i0 acc) = Inr res"
    by (auto simp: item split: sum.splits)
  have "s \<noteq> s0" and "s \<notin> fst ` set items" using Cons.prems(2) item by auto
  then show ?case using Cons.IH [OF rest] by (simp add: update_conv')
qed

lemma comprehension_lookup:
  "courses_comprehension items acc = Inr res \<Longrightarrow> distinct (map fst items) \<Longrightarrow>
     map_of items s = Some d \<Longrightarrow> \<exists>info. course_info d = Inr info \<and> map_of res s = Some info"
proof (induction items arbitrary: acc)
  case Nil
  then show ?case by simp
next
  case (Cons item items)
  obtain s0 d0 where item: "item = (s0, d0)" by (cases item)
  from Cons.prems(1) obtain i0 where i0: "course_info d0 = Inr i0"
      and rest: "courses_comprehension items (AList.update s0 i0 acc) = Inr res"
    by (auto simp: item split: sum.splits)
  show ?case
  proof (cases "s = s0")
    case True
    then have d: "d = d0" using Cons.prems(3) item by simp
    have "s0 \<notin> fst ` set items" using Cons.prems(2) item by simp
    then have "map_of res s0 = Some i0"
      using comprehension_other [OF rest] by (simp add: update_conv')
    then show ?thesis using True d i0 by simp
  next
    case False
    then have "map_of items s = Some d" using Cons.prems(3) item by simp
    moreover have "distinct (map fst items)" using Cons.prems(2) by simp
    ultimately show ?thesis using Cons.IH [OF rest] by blast
  qed
qed

lemma comprehension_total:
  "\<forall>d \<in> snd ` set items. \<exists>data. d = JObj data \<Longrightarrow> \<exists>res. courses_comprehension items acc = Inr res"
proof (induction items arbitrary: acc)
  case Nil
  then show ?case by simp
next
  case (Cons item items)
  obtain s0 d0 where item: "item = (s0, d0)" by (cases item)
  then obtain data where "d0 = JObj data" using Cons.prems by auto
  then show ?case using Cons.IH Cons.prems by (simp add: item)
qed

lemma comprehension_keys:
  "courses_comprehension items acc = Inr res \<Longrightarrow>
     \<forall>(s, i) \<in> set acc. \<exists>d. i = JObj d \<and> map fst d = summary_keys \<Longrightarrow>
     \<forall>(s, i) \<in> set res. \<exists>d. i = JObj d \<and> map fst d = summary_keys"
proof (induction items arbitrary: acc)
  case Nil
  then show ?case by simp
next
  case (Cons item items)
  obtain s0 d0 where item: "item = (s0, d0)" by (cases item)
  from Cons.prems(1) obtain i0 where i0: "course_info d0 = Inr i0"
      and rest: "courses_comprehension items (AList.update s0 i0 acc) = Inr res"
    by (auto simp: item split: sum.splits)
  have "\<exists>d. i0 = JObj d \<and> map fst d = summary_keys"
    using course_info_Inr [OF i0] by (auto simp: summary_keys_def)
  then have "\<forall>(s, i) \<in> set (AList.update s0 i0 acc). \<exists>d. i = JObj d \<and> map fst d = summary_keys"
    using Cons.prems(2) by (auto dest!: update_set)
  then show ?case by (rule Cons.IH [OF rest])
qed


text \<open>
  C5 (as amended). For a catalog whose entries are dicts the listing is built, and an
  entry that lacks an optional field gets the default of the code in the listing: title
  "Sans titre", description "", emoji U+2753, professor "N/A" (and pdf_link null).
\<close>

theorem course_summary_defaults:
  assumes "distinct (map fst quizzes)"
  shows "((\<forall>d \<in> snd ` set quizzes. \<exists>data. d = JObj data) \<longrightarrow>
            (\<exists>courses. get_all_courses_info (Some quizzes) = Inr (JObj courses)))
    \<and> (\<forall>courses data. get_all_courses_info (Some quizzes) = Inr (JObj courses)
            \<and> map_of quizzes subject = Some (JObj data) \<longrightarrow>
          (\<exists>info. map_of courses subject = Some (JObj info)
             \<and> (map_of data ''title'' = None \<longrightarrow>
                  map_of info ''title'' = Some (JStr ''Sans titre''))
             \<and> (map_of data ''description'' = None \<longrightarrow>
                  map_of info ''description'' = Some (JStr []))
             \<and> (map_of data ''emoji'' = None \<longrightarrow>
                  map_of info ''emoji'' = Some (JStr [CHR 0xE2, CHR 0x9D, CHR 0x93]))
             \<and> (map_of data ''professor'' = None \<longrightarrow>
                  map_of info ''professor'' = Some (JStr ''N/A''))
             \<and> (map_of data ''pdf_link'' = None \<longrightarrow>
                  map_of info ''pdf_link'' = Some JNull)))"
proof (intro conjI allI impI)
  assume "\<forall>d \<in> snd ` set quizzes. \<exists>data. d = JObj data"
  then obtain res where "courses_comprehension quizzes [] = Inr res"
    using comprehension_total by blast
  then show "\<exists>courses. get_all_courses_info (Some quizzes) = Inr (JObj courses)"
    by (simp add: get_all_courses_info_def)
next
  fix courses data
  assume a: "get_all_courses_info (Some quizzes) = Inr (JObj courses)
            \<and> map_of quizzes subject = Some (JObj data)"
  then have c: "courses_comprehension quizzes [] = Inr courses"
    by (auto simp: get_all_courses_info_def split: sum.splits)
  obtain i where i: "course_info (JObj data) = Inr i" and m: "map_of courses subject = Some i"
    using comprehension_lookup [OF c assms] a by blast
  show "\<exists>info. map_of courses subject = Some (JObj info)
             \<and> (map_of data ''title'' = None \<longrightarrow>
                  map_of info ''title'' = Some (JStr ''Sans titre''))
             \<and> (map_of data ''description'' = None \<longrightarrow>
                  map_of info ''description'' = Some (JStr []))
             \<and> (map_of data ''emoji'' = None \<longrightarrow>
                  map_of info ''emoji'' = Some (JStr [CHR 0xE2, CHR 0x9D, CHR 0x93]))
             \<and> (map_of data ''professor'' = None \<longrightarrow>
                  map_of info ''professor'' = Some (JStr ''N/A''))
             \<and> (map_of data ''pdf_link'' = None \<longrightarrow>
                  map_of info ''pdf_link'' = Some JNull)"
    using i m by (auto simp: dict_get_def point_interrogation_def)
qed

lemma demo_listing: "get_all_courses_info (Some demo_quizzes) = Inr (JObj demo_courses)"
  by (simp add: get_all_courses_info_def demo_quizzes_def demo_courses_def dict_get_def)

theorem course_summary_defaults_witness:
  "distinct (map fst demo_quizzes)
   \<and> get_all_courses_info (Some demo_quizzes) = Inr (JObj demo_courses)
   \<and> map_of demo_quizzes ''history'' =
       Some (JObj [(''professor'', JStr ''Dr H''), (''questions'', JArr [])])
   \<and> (\<exists>info. map_of demo_courses ''history'' = Some (JObj info)
         \<and> map_of info ''title'' = Some (JStr ''Sans titre'')
         \<and> map_of info ''description'' = Some (JStr [])
         \<and> map_of info ''emoji'' = Some (JStr [CHR 0xE2, CHR 0x9D, CHR 0x93])
         \<and> map_of info ''pdf_link'' = Some JNull)"
proof -
  have d: "distinct (map fst demo_quizzes)" by (simp add: demo_quizzes_def)
  have h: "map_of demo_quizzes ''history'' =
       Some (JObj [(''professor'', JStr ''Dr H''), (''questions'', JArr [])])"
    by (simp add: demo_quizzes_def)
  have "\<exists>info. map_of demo_courses ''history'' = Some (JObj info)
         \<and> map_of info ''title'' = Some (JStr ''Sans titre'')
         \<and> map_of info ''description'' = Some (JStr [])
         \<and> map_of info ''emoji'' = Some (JStr [CHR 0xE2, CHR 0x9D, CHR 0x93])
         \<and> map_of info ''pdf_link'' = Some JNull"
    using course_summary_defaults [OF d, of "''history''", THEN conjunct2, rule_format,
        of demo_courses "[(''professor'', JStr ''Dr H''), (''questions'', JArr [])]"]
      demo_listing h
    by simp
  then show ?thesis using d demo_listing h by blast
qed

theorem course_summary_title_counterexample:
  "get_all_courses_info (Some [(''math'', JObj [])]) =
     Inr (JObj [(''math'', JObj [(''title'', JStr ''Sans titre''), (''description'', JStr []),
                  (''emoji'', JStr [CHR 0xE2, CHR 0x9D, CHR 0x93]),
                  (''professor'', JStr ''N/A''), (''pdf_link'', JNull)])])
   \<and> JStr ''Sans titre'' \<noteq> JStr ''Untitled''"
  by (simp add: get_all_courses_info_def dict_get_def point_interrogation_def)

text \<open>
  C6. Whatever the catalog holds, every value of the listing that
  \<^verbatim>\<open>get_all_courses_info\<close> returns is a dict with exactly the keys title, description,
  emoji, professor and pdf_link, so none has a \<^verbatim>\<open>questions\<close> key. /api/courses answers
  200 with that listing as its body, and /api/data answers 200 with that listing under
  \<^verbatim>\<open>courses\<close>.
\<close>

theorem course_summaries_without_questions:
  "(\<forall>listing. get_all_courses_info file = Inr listing \<longrightarrow>
      (\<exists>courses. listing = JObj courses
         \<and> (\<forall>(subject, info) \<in> set courses.
               \<exists>d. info = JObj d \<and> map fst d = summary_keys \<and> ''questions'' \<notin> set (map fst d))))
   \<and> (\<forall>body. get_courses file = Inr (body, 200) \<longrightarrow> get_all_courses_info file = Inr body)
   \<and> (\<forall>body. get_app_data st file = Inr (body, 200) \<longrightarrow>
        (\<exists>listing. get_all_courses_info file = Inr listing
           \<and> body = JObj [(''user'', get_user_data st), (''courses'', listing)]))"
proof (intro conjI allI impI)
  fix listing
  assume a: "get_all_courses_info file = Inr listing"
  then obtain quizzes courses where c: "courses_comprehension quizzes [] = Inr courses"
      and l: "listing = JObj courses"
    by (auto simp: get_all_courses_info_def split: option.splits sum.splits)
  have "\<forall>(s, i) \<in> set courses. \<exists>d. i = JObj d \<and> map fst d = summary_keys"
    by (rule comprehension_keys [OF c]) simp
  then have "\<forall>(subject, info) \<in> set courses.
      \<exists>d. info = JObj d \<and> map fst d = summary_keys \<and> ''questions'' \<notin> set (map fst d)"
    by (fastforce simp: summary_keys_def)
  then show "\<exists>courses. listing = JObj courses
         \<and> (\<forall>(subject, info) \<in> set courses.
               \<exists>d. info = JObj d \<and> map fst d = summary_keys \<and> ''questions'' \<notin> set (map fst d))"
    using l by blast
next
  fix body
  assume "get_courses file = Inr (body, 200)"
  then show "get_all_courses_info file = Inr body"
    by (auto simp: get_courses_def jsonify_def fichier_non_trouve_def
        split: sum.splits if_splits)
next
  fix body
  assume "get_app_data st file = Inr (body, 200)"
  then show "\<exists>listing. get_all_courses_info file = Inr listing
           \<and> body = JObj [(''user'', get_user_data st), (''courses'', listing)]"
    by (auto simp: get_app_data_def jsonify_def non_autorise_def Let_def
        split: sum.splits if_splits)
qed

theorem course_summaries_without_questions_witness:
  "map_of demo_quizzes ''math'' =
     Some (JObj [(''title'', JStr ''Maths''), (''questions'', JArr [JStr ''q1'', JStr ''q2''])])
   \<and> get_courses (Some demo_quizzes) = Inr (JObj demo_courses, 200)
   \<and> get_app_data st_alice (Some demo_quizzes) =
       Inr (JObj [(''user'', get_user_data st_alice), (''courses'', JObj demo_courses)], 200)
   \<and> list_all (\<lambda>(subject, info). \<exists>d. info = JObj d \<and> ''questions'' \<notin> set (map fst d))
       demo_courses"
proof -
  have m: "map_of demo_quizzes ''math'' =
     Some (JObj [(''title'', JStr ''Maths''), (''questions'', JArr [JStr ''q1'', JStr ''q2''])])"
    by (simp add: demo_quizzes_def)
  have gc: "get_courses (Some demo_quizzes) = Inr (JObj demo_courses, 200)"
    by (simp add: get_courses_def demo_listing jsonify_def)
  have gd: "get_app_data st_alice (Some demo_quizzes) =
       Inr (JObj [(''user'', get_user_data st_alice), (''courses'', JObj demo_courses)], 200)"
    by (simp add: get_app_data_def demo_listing jsonify_def st_alice_def alice_session_def)
  have "\<forall>(subject, info) \<in> set demo_courses.
      \<exists>d. info = JObj d \<and> map fst d = summary_keys \<and> ''questions'' \<notin> set (map fst d)"
    using course_summaries_without_questions [of "Some demo_quizzes", THEN conjunct1,
        rule_format, OF demo_listing]
    by simp
  then have "list_all (\<lambda>(subject, info). \<exists>d. info = JObj d \<and> ''questions'' \<notin> set (map fst d))
       demo_courses"
    unfolding list_all_iff by fastforce
  then show ?thesis using m gc gd by blast
qed

text \<open>
  C7. \<^verbatim>\<open>get_quiz\<close> tests in this order: without a user in the session it answers
  401; with one, it answers 500 when quizzes.json is not found, 404 when the catalog has
  no entry under the subject, and otherwise 200 with the value stored under
  \<^verbatim>\<open>questions\<close> in that entry, as it is.
\<close>

theorem get_quiz_outcomes:
  "(user_id (sess st) = None \<longrightarrow> get_quiz st file subject = Inr non_autorise)
   \<and> (user_id (sess st) \<noteq> None \<and> file = None \<longrightarrow>
        get_quiz st file subject = Inr fichier_non_trouve)
   \<and> (\<forall>quizzes. user_id (sess st) \<noteq> None \<and> file = Some quizzes
          \<and> map_of quizzes subject = None \<longrightarrow>
        get_quiz st file subject = Inr quiz_non_trouve)
   \<and> (\<forall>quizzes data questions. user_id (sess st) \<noteq> None \<and> file = Some quizzes
          \<and> map_of quizzes subject = Some (JObj data)
          \<and> map_of data ''questions'' = Some questions \<longrightarrow>
        get_quiz st file subject = Inr (questions, 200))
   \<and> snd non_autorise = 401 \<and> snd fichier_non_trouve = 500 \<and> snd quiz_non_trouve = 404"
  by (auto simp: get_quiz_def jsonify_def non_autorise_def fichier_non_trouve_def
      quiz_non_trouve_def)

theorem get_quiz_outcomes_witness:
  "get_quiz st_anon (Some demo_quizzes) ''math'' = Inr non_autorise
   \<and> get_quiz st_alice None ''math'' = Inr fichier_non_trouve
   \<and> get_quiz st_alice (Some demo_quizzes) ''unknownSubject'' = Inr quiz_non_trouve
   \<and> get_quiz st_alice (Some demo_quizzes) ''math'' = Inr (JArr [JStr ''q1'', JStr ''q2''], 200)
   \<and> get_quiz st_alice (Some demo_quizzes) ''history'' = Inr (JArr [], 200)"
proof -
  have anon: "user_id (sess st_anon) = None" by (simp add: st_anon_def session_clear_def)
  have al: "user_id (sess st_alice) \<noteq> None" by (simp add: st_alice_def alice_session_def)
  have u: "map_of demo_quizzes ''unknownSubject'' = None" by (simp add: demo_quizzes_def)
  have m: "map_of demo_quizzes ''math'' =
     Some (JObj [(''title'', JStr ''Maths''), (''questions'', JArr [JStr ''q1'', JStr ''q2''])])"
    by (simp add: demo_quizzes_def)
  have h: "map_of demo_quizzes ''history'' =
       Some (JObj [(''professor'', JStr ''Dr H''), (''questions'', JArr [])])"
    by (simp add: demo_quizzes_def)
  have 1: "get_quiz st_anon (Some demo_quizzes) ''math'' = Inr non_autorise"
    using get_quiz_outcomes [of st_anon "Some demo_quizzes" "''math''"] anon by blast
  have 2: "get_quiz st_alice None ''math'' = Inr fichier_non_trouve"
    using get_quiz_outcomes [of st_alice None "''math''"] al by blast
  have 3: "get_quiz st_alice (Some demo_quizzes) ''unknownSubject'' = Inr quiz_non_trouve"
    using get_quiz_outcomes [of st_alice "Some demo_quizzes" "''unknownSubject''"] al u by blast
  have 4: "get_quiz st_alice (Some demo_quizzes) ''math'' = Inr (JArr [JStr ''q1'', JStr ''q2''], 200)"
    using get_quiz_outcomes [of st_alice "Some demo_quizzes" "''math''"] al m by simp
  have 5: "get_quiz st_alice (Some demo_quizzes) ''history'' = Inr (JArr [], 200)"
    using get_quiz_outcomes [of st_alice "Some demo_quizzes" "''history''"] al h by simp
  show ?thesis using 1 2 3 4 5 by (intro conjI)
qed

end
